theory Spec2Isabelle
  imports Complex_Main
begin

section \<open>Signed tokens (django.core.signing)\<close>

text \<open>
  The views of \<^verbatim>\<open>password_reset/views.py\<close> sign and verify their tokens with
  \<^verbatim>\<open>django.core.signing\<close>. Objects that get signed are JSON values: the primary key
  of a user (an integer) or a user name, an e-mail address or the text typed into the
  recovery form (strings). Clock readings are seconds since the epoch; the reals stand
  for Python's floats, whose rounding is not modelled.
\<close>

datatype json = JInt int | JStr string

type_synonym secret = string
type_synonym salt = string

text \<open>
  Modelled from the spec: the signature of \<^verbatim>\<open>django.core.signing\<close> (not part of the
  source tree) is "an authenticated signature over (payload, timestamp, salt, Secret)".
  It is a symbolic keyed hash: a free constructor over the four inputs, so that two
  signatures agree only when all four inputs do.
\<close>

datatype signature = Hmac secret salt json int

text \<open>
  Modelled from the spec: a token is "composed of {encoded payload, encoded issuance
  timestamp, signature}". Any other string that reaches a view in the token position
  of a URL is \<open>Malformed\<close>.
\<close>

datatype token = Signed json int signature | Malformed string

text \<open>
  The exceptions the views raise or let through. In Django \<^verbatim>\<open>SignatureExpired\<close> is a
  subclass of \<^verbatim>\<open>BadSignature\<close>; its message is
  \<^verbatim>\<open>'Signature age %s > %s seconds' % (age, max_age)\<close>, kept here as the two numbers.
\<close>

datatype error = BadSignature | SignatureExpired real real | Http404 | TypeError
  | AttributeError

fun isinstance_BadSignature :: "error \<Rightarrow> bool" where
  "isinstance_BadSignature BadSignature = True"
| "isinstance_BadSignature (SignatureExpired age max_age) = True"
| "isinstance_BadSignature e = False"

text \<open>
  Modelled from the spec: \<^verbatim>\<open>signing.dumps(obj, salt=salt)\<close>, the spec's \<open>sign\<close>:
  "serializes payload, captures current timestamp, computes an authenticated signature".
  The timestamp Django embeds is \<^verbatim>\<open>int(time.time())\<close>, whole seconds.
\<close>

definition dumps :: "secret \<Rightarrow> real \<Rightarrow> json \<Rightarrow> salt \<Rightarrow> token" where
  "dumps key now obj slt = (let timestamp = \<lfloor>now\<rfloor> in
     Signed obj timestamp (Hmac key slt obj timestamp))"

text \<open>
  Modelled from the spec: \<^verbatim>\<open>signing.loads(value, salt=salt, max_age=max_age)\<close>.
  A value that does not split into its parts, or whose signature is not the one computed
  under the salt and the secret, raises \<^verbatim>\<open>BadSignature\<close>; with a \<^verbatim>\<open>max_age\<close>, an
  authentic value whose age \<^verbatim>\<open>time.time() - timestamp\<close> exceeds it raises
  \<^verbatim>\<open>SignatureExpired\<close>; otherwise the signed object is returned.
\<close>

definition loads :: "secret \<Rightarrow> real \<Rightarrow> token \<Rightarrow> salt \<Rightarrow> real option \<Rightarrow> error + json" where
  "loads key now value slt max_age =
     (case value of
        Malformed s \<Rightarrow> Inl BadSignature
      | Signed obj timestamp sg \<Rightarrow>
          if sg \<noteq> Hmac key slt obj timestamp then Inl BadSignature
          else (case max_age of
                  None \<Rightarrow> Inr obj
                | Some a \<Rightarrow>
                    (let age = now - real_of_int timestamp in
                     if age > a then Inl (SignatureExpired age a) else Inr obj)))"

text \<open>
  Modelled from the spec: the three-way \<open>VerificationOutcome\<close> and \<open>verify\<close> of the
  spec's TokenCodec, written after its words: malformed or not authentic under
  (salt, Secret) is \<open>Invalid\<close>; authentic with a maximum age given and
  \<open>now - issuedAt > maxAgeSeconds\<close> is \<open>ExpiredButAuthentic\<close>; authentic and within the
  bound, or no bound given, is \<open>Valid\<close>.
\<close>

datatype outcome = Valid json int | ExpiredButAuthentic json int | Invalid

definition authentic :: "secret \<Rightarrow> salt \<Rightarrow> token \<Rightarrow> bool" where
  "authentic key slt value =
     (case value of
        Malformed s \<Rightarrow> False
      | Signed obj timestamp sg \<Rightarrow> sg = Hmac key slt obj timestamp)"

definition verify :: "secret \<Rightarrow> real \<Rightarrow> token \<Rightarrow> salt \<Rightarrow> real option \<Rightarrow> outcome" where
  "verify key now value slt max_age =
     (case value of
        Malformed s \<Rightarrow> Invalid
      | Signed obj timestamp sg \<Rightarrow>
          if \<not> authentic key slt value then Invalid
          else (case max_age of
                  None \<Rightarrow> Valid obj timestamp
                | Some a \<Rightarrow>
                    if now - real_of_int timestamp > a
                    then ExpiredButAuthentic obj timestamp
                    else Valid obj timestamp))"

section \<open>The views\<close>

subsection \<open>SaltMixin\<close>

definition salt :: salt where
  "salt = ''password_recovery''"

definition url_salt :: salt where
  "url_salt = ''password_recovery_url''"

subsection \<open>loads_with_timestamp\<close>

text \<open>
  \<^verbatim>\<open>signing.loads(value, salt=salt, max_age=-1)\<close> reads the clock at \<open>t_loads\<close>,
  \<^verbatim>\<open>timezone.now()\<close> at \<open>t_now\<close>. The age is read back from the text of the exception.
  When the first call raises nothing the function falls off its end: Python's \<^verbatim>\<open>None\<close>.
  Any exception other than \<^verbatim>\<open>SignatureExpired\<close> leaves the function.
\<close>

definition loads_with_timestamp ::
  "secret \<Rightarrow> real \<Rightarrow> real \<Rightarrow> token \<Rightarrow> salt \<Rightarrow> error + (real \<times> json) option" where
  "loads_with_timestamp key t_loads t_now value slt =
     (case loads key t_loads value slt (Some (- 1)) of
        Inr obj \<Rightarrow> Inr None
      | Inl (SignatureExpired age max_age) \<Rightarrow>
          (let timestamp = t_now - age in
           case loads key t_now value slt None of
             Inl e \<Rightarrow> Inl e
           | Inr obj \<Rightarrow> Inr (Some (timestamp, obj)))
      | Inl e \<Rightarrow> Inl e)"

subsection \<open>RecoverDone\<close>

datatype ctx_value = Datetime real | Json json | Flag bool | Tok token

type_synonym ctx = "string \<rightharpoonup> ctx_value"

text \<open>
  \<open>ctx\<close> is what \<^verbatim>\<open>super().get_context_data(**kwargs)\<close> returned. Unpacking \<^verbatim>\<open>None\<close>
  into the two targets raises \<^verbatim>\<open>TypeError\<close> before either entry is stored.
\<close>

definition RecoverDone_get_context_data ::
  "secret \<Rightarrow> real \<Rightarrow> real \<Rightarrow> bool \<Rightarrow> ctx \<Rightarrow> token \<Rightarrow> error + ctx" where
  "RecoverDone_get_context_data key t_loads t_now fail_noexistent_user ctx signature =
     (case loads_with_timestamp key t_loads t_now signature url_salt of
        Inr (Some (timestamp, email)) \<Rightarrow>
          Inr (ctx(''timestamp'' \<mapsto> Datetime timestamp, ''email'' \<mapsto> Json email))
      | Inr None \<Rightarrow> Inl TypeError
      | Inl e \<Rightarrow>
          if isinstance_BadSignature e
          then (if fail_noexistent_user then Inl Http404 else Inr ctx)
          else Inl e)"

subsection \<open>Recover\<close>

record user =
  pk :: int
  username :: string
  email :: string

record request =
  site :: string
  is_secure :: bool

record form =
  cleaned_user :: "user option"
  cleaned_username_or_email :: string

record email_context =
  ctx_site :: string
  ctx_user :: user
  ctx_token :: token
  ctx_secure :: bool

record mail =
  email_template :: string
  from_email :: string
  recipient_list :: "string list"
  mail_context :: email_context

datatype url = Reverse string "token list"

datatype response = HttpResponseRedirect url | TemplateResponse string ctx
  | FormView_dispatch user

record recover =
  search_fields :: "string list"
  default_from_email :: string
  the_request :: request

definition Recover_email_template :: string where
  "Recover_email_template = ''password_reset/recovery_letter.html''"

definition Recover_get_email_context ::
  "secret \<Rightarrow> real \<Rightarrow> recover \<Rightarrow> user \<Rightarrow> email_context" where
  "Recover_get_email_context key now self u =
     \<lparr>ctx_site = site (the_request self),
      ctx_user = u,
      ctx_token = dumps key now (JInt (pk u)) salt,
      ctx_secure = is_secure (the_request self)\<rparr>"

text \<open>
  \<^verbatim>\<open>send_templated_mail\<close> lives in \<^verbatim>\<open>password_reset.mail\<close>; a call of it is recorded
  as the message handed over.
\<close>

definition Recover_send_notification :: "secret \<Rightarrow> real \<Rightarrow> recover \<Rightarrow> user \<Rightarrow> mail" where
  "Recover_send_notification key now self u =
     \<lparr>email_template = Recover_email_template,
      from_email = default_from_email self,
      recipient_list = [email u],
      mail_context = Recover_get_email_context key now self u\<rparr>"

definition Recover_get_success_url :: "token \<Rightarrow> url" where
  "Recover_get_success_url mail_signature = Reverse ''password_reset_sent'' [mail_signature]"

record recover_result =
  sent :: "mail list"
  mail_signature :: token
  http_response :: response

text \<open>
  \<open>t_mail\<close> is the clock when the reset token of the letter is signed, \<open>t_sig\<close> when the
  acknowledgement token is. \<^verbatim>\<open>super().form_valid(form)\<close> redirects to
  \<^verbatim>\<open>get_success_url()\<close>.
\<close>

definition Recover_form_valid ::
  "secret \<Rightarrow> real \<Rightarrow> real \<Rightarrow> recover \<Rightarrow> form \<Rightarrow> recover_result" where
  "Recover_form_valid key t_mail t_sig self frm =
     (case cleaned_user frm of
        Some u \<Rightarrow>
          (let outbox = [Recover_send_notification key t_mail self u];
               disclosed =
                 (if length (search_fields self) = 1 \<and> search_fields self ! 0 = ''username''
                  then username u
                  else email u);
               sig = dumps key t_sig (JStr disclosed) url_salt
           in \<lparr>sent = outbox, mail_signature = sig,
               http_response = HttpResponseRedirect (Recover_get_success_url sig)\<rparr>)
      | None \<Rightarrow>
          (let sig = dumps key t_sig (JStr (cleaned_username_or_email frm)) ''fake-send''
           in \<lparr>sent = [], mail_signature = sig,
               http_response = HttpResponseRedirect (Recover_get_success_url sig)\<rparr>))"

subsection \<open>Reset\<close>

definition token_expires :: real where
  "token_expires = 3600 * 48"

definition Reset_template_name :: string where
  "Reset_template_name = ''password_reset/reset.html''"

text \<open>
  \<open>self_user\<close> is \<^verbatim>\<open>self.user\<close>, unset (\<open>None\<close>) until \<^verbatim>\<open>dispatch\<close> has resolved it;
  \<open>kwargs\<close> is what \<^verbatim>\<open>super().get_context_data(**kwargs)\<close> hands back.
\<close>

definition Reset_get_context_data :: "user option \<Rightarrow> token \<Rightarrow> ctx \<Rightarrow> error + ctx" where
  "Reset_get_context_data self_user tok kwargs =
     (if ''invalid'' \<notin> dom kwargs
      then (case self_user of
              None \<Rightarrow> Inl AttributeError
            | Some u \<Rightarrow> Inr (kwargs(''username'' \<mapsto> Json (JStr (username u)), ''token'' \<mapsto> Tok tok)))
      else Inr kwargs)"

definition Reset_invalid :: "user option \<Rightarrow> token \<Rightarrow> error + response" where
  "Reset_invalid self_user tok =
     (case Reset_get_context_data self_user tok [''invalid'' \<mapsto> Flag True] of
        Inl e \<Rightarrow> Inl e
      | Inr c \<Rightarrow> Inr (TemplateResponse Reset_template_name c))"

text \<open>
  \<open>objects_get\<close> is the account store's query \<^verbatim>\<open>User.objects.get(pk=pk)\<close>, \<open>None\<close> when
  no user has that key; \<^verbatim>\<open>get_object_or_404\<close> turns that into \<^verbatim>\<open>Http404\<close>.
\<close>

definition get_object_or_404 :: "(json \<Rightarrow> user option) \<Rightarrow> json \<Rightarrow> error + user" where
  "get_object_or_404 objects_get k =
     (case objects_get k of None \<Rightarrow> Inl Http404 | Some u \<Rightarrow> Inr u)"

definition Reset_dispatch ::
  "secret \<Rightarrow> real \<Rightarrow> (json \<Rightarrow> user option) \<Rightarrow> token \<Rightarrow> error + response" where
  "Reset_dispatch key now objects_get tok =
     (case loads key now tok salt (Some token_expires) of
        Inl e \<Rightarrow>
          if isinstance_BadSignature e then Reset_invalid None tok else Inl e
      | Inr k \<Rightarrow>
          (case get_object_or_404 objects_get k of
             Inl e \<Rightarrow> Inl e
           | Inr u \<Rightarrow> Inr (FormView_dispatch u)))"

section \<open>Properties of the token codec\<close>

lemma authentic_dumps:
  "authentic key s2 (dumps key' t obj s1) \<longleftrightarrow> key = key' \<and> s1 = s2"
  by (auto simp: authentic_def dumps_def Let_def)

lemma verify_Invalid_iff:
  "verify key now value slt max_age = Invalid \<longleftrightarrow> \<not> authentic key slt value"
  by (auto simp: verify_def authentic_def split: token.splits option.splits)

lemma loads_not_authentic:
  "\<not> authentic key slt value \<Longrightarrow> loads key now value slt max_age = Inl BadSignature"
  by (auto simp: loads_def authentic_def split: token.splits)

text \<open>
  \<open>loads\<close> is \<open>verify\<close> with the two failures raised as exceptions and the timestamp of a
  valid token dropped.
\<close>

lemma loads_verify:
  "loads key now value slt max_age =
     (case verify key now value slt max_age of
        Invalid \<Rightarrow> Inl BadSignature
      | Valid obj ts \<Rightarrow> Inr obj
      | ExpiredButAuthentic obj ts \<Rightarrow>
          (case max_age of
             Some a \<Rightarrow> Inl (SignatureExpired (now - real_of_int ts) a)
           | None \<Rightarrow> Inl BadSignature))"
  by (auto simp: loads_def verify_def authentic_def Let_def split: token.splits option.splits)

lemma loads_dumps_None: "loads key now (dumps key t obj slt) slt None = Inr obj"
  by (simp add: loads_def dumps_def Let_def)

lemma loads_dumps_Some:
  "loads key now (dumps key t obj slt) slt (Some a) =
     (if now - real_of_int \<lfloor>t\<rfloor> > a
      then Inl (SignatureExpired (now - real_of_int \<lfloor>t\<rfloor>) a)
      else Inr obj)"
  by (simp add: loads_def dumps_def Let_def)

section \<open>Recovering the time of issue\<close>

text \<open>
  On a token this program signed, \<open>loads_with_timestamp\<close> under the signing salt has two
  outcomes only: the pair, when the age seen by the first \<open>loads\<close> is above \<open>-1\<close>, and
  Python's \<open>None\<close> otherwise.
\<close>

lemma loads_with_timestamp_dumps:
  "loads_with_timestamp key t_loads t_now (dumps key t obj slt) slt =
     (if t_loads - real_of_int \<lfloor>t\<rfloor> > - 1
      then Inr (Some (t_now - (t_loads - real_of_int \<lfloor>t\<rfloor>), obj))
      else Inr None)"
  by (simp add: loads_with_timestamp_def loads_dumps_Some loads_dumps_None)

lemma loads_with_timestamp_not_authentic:
  "\<not> authentic key slt value \<Longrightarrow>
     loads_with_timestamp key t_loads t_now value slt = Inl BadSignature"
  by (simp add: loads_with_timestamp_def loads_not_authentic)

text \<open>
  Claim C1. For every authentic token \<open>loads_with_timestamp\<close> should return the pair of
  issue time and payload also when \<open>signing.loads\<close> with \<open>max_age=-1\<close> raises nothing.
  The code does not: an authentic token whose timestamp (1000) lies more than a second
  ahead of the verifying clock (998.5) passes the first \<open>loads\<close>, the function returns
  \<open>None\<close>, and \<open>RecoverDone.get_context_data\<close> fails unpacking it.
\<close>

theorem loads_with_timestamp_unexpired_is_None:
  "authentic ''k'' url_salt (dumps ''k'' 1000 (JStr ''a@b.c'') url_salt)
   \<and> loads ''k'' 998.5 (dumps ''k'' 1000 (JStr ''a@b.c'') url_salt) url_salt (Some (- 1))
       = Inr (JStr ''a@b.c'')
   \<and> loads_with_timestamp ''k'' 998.5 998.6 (dumps ''k'' 1000 (JStr ''a@b.c'') url_salt) url_salt
       = Inr None
   \<and> RecoverDone_get_context_data ''k'' 998.5 998.6 True Map.empty
        (dumps ''k'' 1000 (JStr ''a@b.c'') url_salt)
       = Inl TypeError"
  by (simp add: loads_with_timestamp_dumps loads_dumps_Some authentic_dumps
      RecoverDone_get_context_data_def)

text \<open>
  Claim C2. A token signed at \<open>t_sign\<close> over \<open>obj\<close> and handed to \<open>loads_with_timestamp\<close>
  at any later time yields \<open>obj\<close> and the time of signing: the whole second
  \<open>\<lfloor>t_sign\<rfloor>\<close> that the token carries, less than a second below \<open>t_sign\<close>, shifted by
  the delay between the two clock readings of the function. This holds although
  \<open>loads\<close> with any maximum age below the real age rejects the token as expired.
\<close>

theorem loads_with_timestamp_recovers_signing_time:
  "t_sign \<le> t_loads \<Longrightarrow>
   loads_with_timestamp key t_loads t_now (dumps key t_sign obj slt) slt
     = Inr (Some (real_of_int \<lfloor>t_sign\<rfloor> + (t_now - t_loads), obj))
   \<and> t_sign - 1 < real_of_int \<lfloor>t_sign\<rfloor> \<and> real_of_int \<lfloor>t_sign\<rfloor> \<le> t_sign
   \<and> (a < t_loads - t_sign \<longrightarrow>
        loads key t_loads (dumps key t_sign obj slt) slt (Some a)
          = Inl (SignatureExpired (t_loads - real_of_int \<lfloor>t_sign\<rfloor>) a))"
  by (auto simp: loads_with_timestamp_dumps loads_dumps_Some) linarith+

theorem loads_with_timestamp_recovers_signing_time_witness:
  "(1000.75::real) \<le> 11000.75 \<and> (60::real) < 11000.75 - 1000.75
   \<and> loads_with_timestamp ''k'' 11000.75 11000.75
        (dumps ''k'' 1000.75 (JStr ''a@b.c'') url_salt) url_salt
       = Inr (Some (1000, JStr ''a@b.c''))
   \<and> loads ''k'' 11000.75 (dumps ''k'' 1000.75 (JStr ''a@b.c'') url_salt) url_salt (Some 60)
       = Inl (SignatureExpired 10000.75 60)"
  using loads_with_timestamp_recovers_signing_time
    [of "1000.75" "11000.75" "''k''" "11000.75" "JStr ''a@b.c''" url_salt 60]
  by simp

text \<open>
  Claim C3. When the verification outcome of the token is \<open>Invalid\<close> (forged, tampered
  or malformed, not merely expired), \<open>loads_with_timestamp\<close> raises \<open>BadSignature\<close> and
  hands back no timestamp and no payload.
\<close>

theorem loads_with_timestamp_invalid_raises_BadSignature:
  "verify key t_loads value slt (Some (- 1)) = Invalid \<Longrightarrow>
     loads_with_timestamp key t_loads t_now value slt = Inl BadSignature
     \<and> (\<forall>ts obj. loads_with_timestamp key t_loads t_now value slt \<noteq> Inr (Some (ts, obj)))"
  by (simp add: verify_Invalid_iff loads_with_timestamp_not_authentic)

theorem loads_with_timestamp_invalid_raises_BadSignature_witness:
  "verify ''k'' 2000
      (Signed (JStr ''a@b.c'') 1000 (Hmac ''guess'' url_salt (JStr ''a@b.c'') 1000))
      url_salt (Some (- 1)) = Invalid
   \<and> loads_with_timestamp ''k'' 2000 2000
        (Signed (JStr ''a@b.c'') 1000 (Hmac ''guess'' url_salt (JStr ''a@b.c'') 1000)) url_salt
      = Inl BadSignature"
proof -
  have h: "verify ''k'' 2000
      (Signed (JStr ''a@b.c'') 1000 (Hmac ''guess'' url_salt (JStr ''a@b.c'') 1000))
      url_salt (Some (- 1)) = Invalid"
    by (simp add: verify_def authentic_def)
  from loads_with_timestamp_invalid_raises_BadSignature [OF h, of 2000] h
  show ?thesis by simp
qed

section \<open>Salts separate the kinds of token\<close>

text \<open>
  Claim C4. A token signed under one salt, verified under a different salt with the same
  secret, is \<open>Invalid\<close> (\<open>loads\<close> raises \<open>BadSignature\<close>), whatever the payload, the clock
  and the maximum age; so a token signed under the decoy salt \<open>fake-send\<close> verifies
  neither under \<open>url_salt\<close> nor under \<open>salt\<close>.
\<close>

theorem verify_other_salt_Invalid:
  "s1 \<noteq> s2 \<Longrightarrow>
     verify key now (dumps key t obj s1) s2 max_age = Invalid
     \<and> loads key now (dumps key t obj s1) s2 max_age = Inl BadSignature
     \<and> verify key now (dumps key t obj ''fake-send'') url_salt max_age = Invalid
     \<and> verify key now (dumps key t obj ''fake-send'') salt max_age = Invalid"
  by (simp add: verify_Invalid_iff authentic_dumps loads_not_authentic salt_def url_salt_def)

theorem verify_other_salt_Invalid_witness:
  "url_salt \<noteq> salt
   \<and> verify ''k'' 1001 (dumps ''k'' 1000 (JStr ''a@b.c'') url_salt) salt None = Invalid
   \<and> loads ''k'' 1001 (dumps ''k'' 1000 (JStr ''a@b.c'') url_salt) salt None = Inl BadSignature"
proof -
  have h: "url_salt \<noteq> salt"
    by (simp add: salt_def url_salt_def)
  from verify_other_salt_Invalid [OF h, of "''k''" 1001 1000 "JStr ''a@b.c''" None] h
  show ?thesis by simp
qed

lemma verify_dumps:
  "verify key now (dumps key t obj slt) slt max_age =
     (case max_age of
        None \<Rightarrow> Valid obj \<lfloor>t\<rfloor>
      | Some a \<Rightarrow>
          if now - real_of_int \<lfloor>t\<rfloor> > a then ExpiredButAuthentic obj \<lfloor>t\<rfloor>
          else Valid obj \<lfloor>t\<rfloor>)"
  by (simp add: verify_def authentic_def dumps_def Let_def split: option.splits)

lemma verify_Expired_iff:
  "verify key now value slt max_age = ExpiredButAuthentic obj ts \<longleftrightarrow>
     (\<exists>sg a. value = Signed obj ts sg \<and> authentic key slt value \<and> max_age = Some a
        \<and> now - real_of_int ts > a)"
  by (auto simp: verify_def split: token.splits option.splits if_splits)

section \<open>The reset view\<close>

lemma Reset_invalid_None:
  "Reset_invalid None tok
     = Inr (TemplateResponse Reset_template_name [''invalid'' \<mapsto> Flag True])"
  by (simp add: Reset_invalid_def Reset_get_context_data_def)

lemma Reset_dispatch_loads_ok:
  "loads key now tok salt (Some token_expires) = Inr k \<Longrightarrow>
     Reset_dispatch key now objects_get tok =
       (case objects_get k of None \<Rightarrow> Inl Http404 | Some u \<Rightarrow> Inr (FormView_dispatch u))"
  by (simp add: Reset_dispatch_def get_object_or_404_def split: option.splits)

lemma Reset_dispatch_not_authentic:
  "\<not> authentic key salt tok \<Longrightarrow>
     Reset_dispatch key now objects_get tok
       = Inr (TemplateResponse Reset_template_name [''invalid'' \<mapsto> Flag True])"
  by (simp add: Reset_dispatch_def loads_not_authentic Reset_invalid_None)

lemma Reset_dispatch_authentic:
  "authentic key salt (Signed obj ts sg) \<Longrightarrow>
     Reset_dispatch key now objects_get (Signed obj ts sg) =
       (if now - real_of_int ts > token_expires
        then Inr (TemplateResponse Reset_template_name [''invalid'' \<mapsto> Flag True])
        else (case objects_get obj of
                None \<Rightarrow> Inl Http404
              | Some u \<Rightarrow> Inr (FormView_dispatch u)))"
  by (simp add: Reset_dispatch_def loads_def authentic_def Let_def Reset_invalid_None
      get_object_or_404_def split: option.splits)

text \<open>
  Claim C5. Round trip: a token signed over \<open>obj\<close> under a salt verifies under the same
  salt as \<open>Valid\<close> with payload \<open>obj\<close> and the (whole-second) time of signing, when no
  maximum age is given or the age is within it. In particular the reset token that
  \<open>Recover.get_email_context\<close> signs over the user's \<open>pk\<close>, presented to \<open>Reset.dispatch\<close>
  within \<open>token_expires\<close>, decodes to that \<open>pk\<close>, which is then looked up.
\<close>

theorem verify_dumps_roundtrip:
  "verify key now (dumps key t obj slt) slt None = Valid obj \<lfloor>t\<rfloor>
   \<and> (now - real_of_int \<lfloor>t\<rfloor> \<le> a \<longrightarrow>
        verify key now (dumps key t obj slt) slt (Some a) = Valid obj \<lfloor>t\<rfloor>)
   \<and> (now - real_of_int \<lfloor>t\<rfloor> \<le> token_expires \<longrightarrow>
        loads key now (ctx_token (Recover_get_email_context key t self u)) salt
            (Some token_expires)
          = Inr (JInt (pk u))
        \<and> Reset_dispatch key now objects_get
            (ctx_token (Recover_get_email_context key t self u))
          = (case objects_get (JInt (pk u)) of
               None \<Rightarrow> Inl Http404
             | Some u' \<Rightarrow> Inr (FormView_dispatch u')))"
proof -
  let ?tok = "ctx_token (Recover_get_email_context key t self u)"
  have tok: "?tok = dumps key t (JInt (pk u)) salt"
    by (simp add: Recover_get_email_context_def)
  have "loads key now ?tok salt (Some token_expires) = Inr (JInt (pk u))"
    if "now - real_of_int \<lfloor>t\<rfloor> \<le> token_expires"
    using that by (simp add: tok loads_dumps_Some)
  then show ?thesis
    by (auto simp: verify_dumps dest: Reset_dispatch_loads_ok)
qed

theorem verify_dumps_roundtrip_witness:
  "(5000::real) - real_of_int \<lfloor>1000.5::real\<rfloor> \<le> 4000
   \<and> 5000 - real_of_int \<lfloor>1000.5::real\<rfloor> \<le> token_expires
   \<and> verify ''k'' 5000 (dumps ''k'' 1000.5 (JInt 7) salt) salt None = Valid (JInt 7) 1000
   \<and> verify ''k'' 5000 (dumps ''k'' 1000.5 (JInt 7) salt) salt (Some 4000) = Valid (JInt 7) 1000
   \<and> Reset_dispatch ''k'' 5000
        (\<lambda>k. if k = JInt 7
              then Some \<lparr>pk = 7, username = ''alice'', email = ''alice@example.org''\<rparr>
              else None)
        (ctx_token (Recover_get_email_context ''k'' 1000.5
           \<lparr>search_fields = [''username'', ''email''], default_from_email = ''noreply@example.org'',
            the_request = \<lparr>site = ''example.org'', is_secure = True\<rparr>\<rparr>
           \<lparr>pk = 7, username = ''alice'', email = ''alice@example.org''\<rparr>))
      = Inr (FormView_dispatch \<lparr>pk = 7, username = ''alice'', email = ''alice@example.org''\<rparr>)"
  using verify_dumps_roundtrip [of "''k''" 5000 "1000.5" "JInt 7" salt 4000
      "\<lparr>search_fields = [''username'', ''email''], default_from_email = ''noreply@example.org'',
        the_request = \<lparr>site = ''example.org'', is_secure = True\<rparr>\<rparr>"
      "\<lparr>pk = 7, username = ''alice'', email = ''alice@example.org''\<rparr>"
      "\<lambda>k. if k = JInt 7
           then Some \<lparr>pk = 7, username = ''alice'', email = ''alice@example.org''\<rparr>
           else None"]
  by (simp add: token_expires_def Recover_get_email_context_def)

text \<open>
  Claim C8. \<open>Reset.dispatch\<close> verifies with a maximum age of exactly 172800 seconds. A
  forged or malformed token and an authentic but expired one both give the rendered
  \<open>invalid\<close> page, a response and not an exception; and a token this program signed under
  \<open>salt\<close> gives that page exactly when its age is above 172800, so an expired token never
  reaches the form.
\<close>

theorem Reset_dispatch_bad_or_expired_is_invalid:
  "token_expires = 172800
   \<and> (verify key now tok salt (Some token_expires) = Invalid \<longrightarrow>
        Reset_dispatch key now objects_get tok
          = Inr (TemplateResponse Reset_template_name [''invalid'' \<mapsto> Flag True]))
   \<and> (verify key now tok salt (Some token_expires) = ExpiredButAuthentic obj ts \<longrightarrow>
        Reset_dispatch key now objects_get tok
          = Inr (TemplateResponse Reset_template_name [''invalid'' \<mapsto> Flag True]))
   \<and> (Reset_dispatch key now objects_get (dumps key t obj salt)
          = Inr (TemplateResponse Reset_template_name [''invalid'' \<mapsto> Flag True])
        \<longleftrightarrow> now - real_of_int \<lfloor>t\<rfloor> > 172800)"
proof -
  have a: "token_expires = 172800"
    by (simp add: token_expires_def)
  have b: "Reset_dispatch key now objects_get tok
          = Inr (TemplateResponse Reset_template_name [''invalid'' \<mapsto> Flag True])"
    if "verify key now tok salt (Some token_expires) = Invalid"
    using that by (simp add: verify_Invalid_iff Reset_dispatch_not_authentic)
  have c: "Reset_dispatch key now objects_get tok
          = Inr (TemplateResponse Reset_template_name [''invalid'' \<mapsto> Flag True])"
    if "verify key now tok salt (Some token_expires) = ExpiredButAuthentic obj ts"
    using that by (auto simp: verify_Expired_iff Reset_dispatch_authentic)
  have d: "Reset_dispatch key now objects_get (dumps key t obj salt)
          = Inr (TemplateResponse Reset_template_name [''invalid'' \<mapsto> Flag True])
        \<longleftrightarrow> now - real_of_int \<lfloor>t\<rfloor> > 172800"
    using Reset_dispatch_authentic [of key obj "\<lfloor>t\<rfloor>" "Hmac key salt obj \<lfloor>t\<rfloor>" now objects_get]
    by (auto simp: dumps_def Let_def authentic_def a split: option.splits)
  from a b c d show ?thesis by blast
qed

theorem Reset_dispatch_bad_or_expired_is_invalid_witness:
  "verify ''k'' 5000 (Malformed ''abc'') salt (Some token_expires) = Invalid
   \<and> Reset_dispatch ''k'' 5000 (\<lambda>k. None) (Malformed ''abc'')
       = Inr (TemplateResponse Reset_template_name [''invalid'' \<mapsto> Flag True])
   \<and> verify ''k'' 173801 (dumps ''k'' 1000 (JInt 7) salt) salt (Some token_expires)
       = ExpiredButAuthentic (JInt 7) 1000
   \<and> Reset_dispatch ''k'' 173801 (\<lambda>k. None) (dumps ''k'' 1000 (JInt 7) salt)
       = Inr (TemplateResponse Reset_template_name [''invalid'' \<mapsto> Flag True])
   \<and> Reset_dispatch ''k'' 173800 (\<lambda>k. None) (dumps ''k'' 1000 (JInt 7) salt)
       \<noteq> Inr (TemplateResponse Reset_template_name [''invalid'' \<mapsto> Flag True])"
proof -
  have h1: "verify ''k'' 5000 (Malformed ''abc'') salt (Some token_expires) = Invalid"
    by (simp add: verify_def)
  have h2: "verify ''k'' 173801 (dumps ''k'' 1000 (JInt 7) salt) salt (Some token_expires)
       = ExpiredButAuthentic (JInt 7) 1000"
    by (simp add: verify_dumps token_expires_def)
  from Reset_dispatch_bad_or_expired_is_invalid
         [of "''k''" 5000 "Malformed ''abc''" "\<lambda>k. None" "JInt 7" 1000 1000]
       Reset_dispatch_bad_or_expired_is_invalid
         [of "''k''" 173801 "dumps ''k'' 1000 (JInt 7) salt" "\<lambda>k. None" "JInt 7" 1000 1000]
       Reset_dispatch_bad_or_expired_is_invalid
         [of "''k''" 173800 "dumps ''k'' 1000 (JInt 7) salt" "\<lambda>k. None" "JInt 7" 1000 1000]
       h1 h2
  show ?thesis by simp
qed

text \<open>
  Claim C9. A reset token that verifies as authentic and unexpired, whose payload is the
  key of no user, makes \<open>Reset.dispatch\<close> raise \<open>Http404\<close>; it does not render the
  \<open>invalid\<close> page, so the two visits can be told apart.
\<close>

theorem Reset_dispatch_missing_user_Http404:
  "verify key now tok salt (Some token_expires) = Valid k ts \<Longrightarrow> objects_get k = None \<Longrightarrow>
     Reset_dispatch key now objects_get tok = Inl Http404
     \<and> Reset_dispatch key now objects_get tok
         \<noteq> Inr (TemplateResponse Reset_template_name [''invalid'' \<mapsto> Flag True])"
  by (simp add: Reset_dispatch_def loads_verify get_object_or_404_def)

theorem Reset_dispatch_missing_user_Http404_witness:
  "verify ''k'' 5000 (dumps ''k'' 1000 (JInt 7) salt) salt (Some token_expires)
     = Valid (JInt 7) 1000
   \<and> (\<lambda>k::json. None::user option) (JInt 7) = None
   \<and> Reset_dispatch ''k'' 5000 (\<lambda>k. None) (dumps ''k'' 1000 (JInt 7) salt) = Inl Http404"
proof -
  have h: "verify ''k'' 5000 (dumps ''k'' 1000 (JInt 7) salt) salt (Some token_expires)
     = Valid (JInt 7) 1000"
    by (simp add: verify_dumps token_expires_def)
  from Reset_dispatch_missing_user_Http404 [OF h, of "\<lambda>k. None"] h
  show ?thesis by simp
qed

section \<open>The recovery view\<close>

lemma only_username_iff:
  "(length sf = 1 \<and> sf ! 0 = ''username'') \<longleftrightarrow> sf = [''username'']"
  by (cases sf) auto

lemma dumps_obj_eq: "dumps key t obj slt = dumps key t obj' slt \<longleftrightarrow> obj = obj'"
  by (auto simp: dumps_def Let_def)

lemma Recover_form_valid_Some:
  "cleaned_user frm = Some u \<Longrightarrow>
     Recover_form_valid key t_mail t_sig self frm =
       \<lparr>sent = [Recover_send_notification key t_mail self u],
        mail_signature = dumps key t_sig
          (JStr (if search_fields self = [''username''] then username u else email u)) url_salt,
        http_response = HttpResponseRedirect (Recover_get_success_url (dumps key t_sig
          (JStr (if search_fields self = [''username''] then username u else email u))
          url_salt))\<rparr>"
  unfolding Recover_form_valid_def only_username_iff by (simp add: Let_def)

lemma Recover_form_valid_None:
  "cleaned_user frm = None \<Longrightarrow>
     Recover_form_valid key t_mail t_sig self frm =
       \<lparr>sent = [],
        mail_signature = dumps key t_sig (JStr (cleaned_username_or_email frm)) ''fake-send'',
        http_response = HttpResponseRedirect (Recover_get_success_url
          (dumps key t_sig (JStr (cleaned_username_or_email frm)) ''fake-send''))\<rparr>"
  by (simp add: Recover_form_valid_def Let_def)

text \<open>
  Claim C6. When the form found a user, the acknowledgement token is signed over the
  user name if \<open>search_fields\<close> is exactly \<open>[username]\<close>, and over the e-mail address in
  every other configuration; for a user whose name and address differ, the payload is
  the user name if and only if \<open>search_fields\<close> is \<open>[username]\<close>.
\<close>

theorem Recover_form_valid_disclosed_identifier:
  "cleaned_user frm = Some u \<Longrightarrow>
     (search_fields self = [''username''] \<longrightarrow>
        mail_signature (Recover_form_valid key t_mail t_sig self frm)
          = dumps key t_sig (JStr (username u)) url_salt)
     \<and> (search_fields self \<noteq> [''username''] \<longrightarrow>
        mail_signature (Recover_form_valid key t_mail t_sig self frm)
          = dumps key t_sig (JStr (email u)) url_salt)
     \<and> (username u \<noteq> email u \<longrightarrow>
        (mail_signature (Recover_form_valid key t_mail t_sig self frm)
           = dumps key t_sig (JStr (username u)) url_salt
         \<longleftrightarrow> search_fields self = [''username'']))"
  by (simp add: Recover_form_valid_Some dumps_obj_eq)

theorem Recover_form_valid_disclosed_identifier_witness:
  "cleaned_user \<lparr>cleaned_user = Some \<lparr>pk = 7, username = ''alice'', email = ''alice@example.org''\<rparr>, cleaned_username_or_email = ''alice''\<rparr> = Some \<lparr>pk = 7, username = ''alice'', email = ''alice@example.org''\<rparr>
   \<and> username \<lparr>pk = 7, username = ''alice'', email = ''alice@example.org''\<rparr> \<noteq> email \<lparr>pk = 7, username = ''alice'', email = ''alice@example.org''\<rparr>
   \<and> mail_signature (Recover_form_valid ''k'' 2000 2001 \<lparr>search_fields = [''username''], default_from_email = ''noreply@example.org'', the_request = \<lparr>site = ''example.org'', is_secure = True\<rparr>\<rparr> \<lparr>cleaned_user = Some \<lparr>pk = 7, username = ''alice'', email = ''alice@example.org''\<rparr>, cleaned_username_or_email = ''alice''\<rparr>)
       = dumps ''k'' 2001 (JStr ''alice'') url_salt
   \<and> mail_signature (Recover_form_valid ''k'' 2000 2001 \<lparr>search_fields = [''username'', ''email''], default_from_email = ''noreply@example.org'', the_request = \<lparr>site = ''example.org'', is_secure = True\<rparr>\<rparr> \<lparr>cleaned_user = Some \<lparr>pk = 7, username = ''alice'', email = ''alice@example.org''\<rparr>, cleaned_username_or_email = ''alice''\<rparr>)
       = dumps ''k'' 2001 (JStr ''alice@example.org'') url_salt
   \<and> mail_signature (Recover_form_valid ''k'' 2000 2001 \<lparr>search_fields = [''username'', ''email''], default_from_email = ''noreply@example.org'', the_request = \<lparr>site = ''example.org'', is_secure = True\<rparr>\<rparr> \<lparr>cleaned_user = Some \<lparr>pk = 7, username = ''alice'', email = ''alice@example.org''\<rparr>, cleaned_username_or_email = ''alice''\<rparr>)
       \<noteq> dumps ''k'' 2001 (JStr ''alice'') url_salt"
proof -
  have h: "cleaned_user \<lparr>cleaned_user = Some \<lparr>pk = 7, username = ''alice'', email = ''alice@example.org''\<rparr>, cleaned_username_or_email = ''alice''\<rparr> = Some \<lparr>pk = 7, username = ''alice'', email = ''alice@example.org''\<rparr>"
    by simp
  from Recover_form_valid_disclosed_identifier [OF h, of "\<lparr>search_fields = [''username''], default_from_email = ''noreply@example.org'', the_request = \<lparr>site = ''example.org'', is_secure = True\<rparr>\<rparr>" "''k''" 2000 2001]
       Recover_form_valid_disclosed_identifier [OF h, of "\<lparr>search_fields = [''username'', ''email''], default_from_email = ''noreply@example.org'', the_request = \<lparr>site = ''example.org'', is_secure = True\<rparr>\<rparr>" "''k''" 2000 2001]
  show ?thesis by (simp add: dumps_obj_eq)
qed

text \<open>
  Claim C7. Whether or not the form found a user, \<open>Recover.form_valid\<close> sets an
  acknowledgement token and redirects to \<open>password_reset_sent\<close> with that token as the
  only argument. With a user it sends exactly one message and signs the disclosed
  identifier under \<open>url_salt\<close>; without one it sends nothing and signs the text the
  visitor typed under the decoy salt \<open>fake-send\<close>.
\<close>

theorem Recover_form_valid_always_redirects:
  "http_response (Recover_form_valid key t_mail t_sig self frm)
     = HttpResponseRedirect (Reverse ''password_reset_sent''
         [mail_signature (Recover_form_valid key t_mail t_sig self frm)])
   \<and> (\<forall>u. cleaned_user frm = Some u \<longrightarrow>
        sent (Recover_form_valid key t_mail t_sig self frm)
          = [Recover_send_notification key t_mail self u]
        \<and> mail_signature (Recover_form_valid key t_mail t_sig self frm)
          = dumps key t_sig
              (JStr (if search_fields self = [''username''] then username u else email u))
              url_salt)
   \<and> (cleaned_user frm = None \<longrightarrow>
        sent (Recover_form_valid key t_mail t_sig self frm) = []
        \<and> mail_signature (Recover_form_valid key t_mail t_sig self frm)
          = dumps key t_sig (JStr (cleaned_username_or_email frm)) ''fake-send'')"
  by (cases "cleaned_user frm")
    (simp_all add: Recover_form_valid_Some Recover_form_valid_None Recover_get_success_url_def)

theorem Recover_form_valid_always_redirects_witness:
  "cleaned_user \<lparr>cleaned_user = Some \<lparr>pk = 7, username = ''alice'', email = ''alice@example.org''\<rparr>, cleaned_username_or_email = ''alice''\<rparr> = Some \<lparr>pk = 7, username = ''alice'', email = ''alice@example.org''\<rparr>
   \<and> length (sent (Recover_form_valid ''k'' 2000 2001 \<lparr>search_fields = [''username'', ''email''], default_from_email = ''noreply@example.org'', the_request = \<lparr>site = ''example.org'', is_secure = True\<rparr>\<rparr> \<lparr>cleaned_user = Some \<lparr>pk = 7, username = ''alice'', email = ''alice@example.org''\<rparr>, cleaned_username_or_email = ''alice''\<rparr>)) = 1
   \<and> mail_signature (Recover_form_valid ''k'' 2000 2001 \<lparr>search_fields = [''username'', ''email''], default_from_email = ''noreply@example.org'', the_request = \<lparr>site = ''example.org'', is_secure = True\<rparr>\<rparr> \<lparr>cleaned_user = Some \<lparr>pk = 7, username = ''alice'', email = ''alice@example.org''\<rparr>, cleaned_username_or_email = ''alice''\<rparr>)
       = dumps ''k'' 2001 (JStr ''alice@example.org'') url_salt
   \<and> cleaned_user \<lparr>cleaned_user = None, cleaned_username_or_email = ''bob@example.org''\<rparr> = None
   \<and> sent (Recover_form_valid ''k'' 2000 2001 \<lparr>search_fields = [''username'', ''email''], default_from_email = ''noreply@example.org'', the_request = \<lparr>site = ''example.org'', is_secure = True\<rparr>\<rparr> \<lparr>cleaned_user = None, cleaned_username_or_email = ''bob@example.org''\<rparr>) = []
   \<and> mail_signature (Recover_form_valid ''k'' 2000 2001 \<lparr>search_fields = [''username'', ''email''], default_from_email = ''noreply@example.org'', the_request = \<lparr>site = ''example.org'', is_secure = True\<rparr>\<rparr> \<lparr>cleaned_user = None, cleaned_username_or_email = ''bob@example.org''\<rparr>)
       = dumps ''k'' 2001 (JStr ''bob@example.org'') ''fake-send''
   \<and> http_response (Recover_form_valid ''k'' 2000 2001 \<lparr>search_fields = [''username'', ''email''], default_from_email = ''noreply@example.org'', the_request = \<lparr>site = ''example.org'', is_secure = True\<rparr>\<rparr> \<lparr>cleaned_user = None, cleaned_username_or_email = ''bob@example.org''\<rparr>)
       = HttpResponseRedirect (Reverse ''password_reset_sent''
           [dumps ''k'' 2001 (JStr ''bob@example.org'') ''fake-send''])"
  using Recover_form_valid_always_redirects [of "''k''" 2000 2001 "\<lparr>search_fields = [''username'', ''email''], default_from_email = ''noreply@example.org'', the_request = \<lparr>site = ''example.org'', is_secure = True\<rparr>\<rparr>" "\<lparr>cleaned_user = Some \<lparr>pk = 7, username = ''alice'', email = ''alice@example.org''\<rparr>, cleaned_username_or_email = ''alice''\<rparr>"]
        Recover_form_valid_always_redirects [of "''k''" 2000 2001 "\<lparr>search_fields = [''username'', ''email''], default_from_email = ''noreply@example.org'', the_request = \<lparr>site = ''example.org'', is_secure = True\<rparr>\<rparr>" "\<lparr>cleaned_user = None, cleaned_username_or_email = ''bob@example.org''\<rparr>"]
  by simp

section \<open>The confirmation page\<close>

text \<open>
  Claim C10. The decoy token that \<open>Recover.form_valid\<close> signs under \<open>fake-send\<close> when no
  user was found always fails verification under \<open>url_salt\<close> at the confirmation page:
  with \<open>fail_noexistent_user\<close> set the page raises \<open>Http404\<close>, without it the context
  comes back unchanged, with no timestamp and no e-mail entry added. The token signed
  for a user that was found, shown later, adds both entries: the page tells the two
  outcomes apart.
\<close>

theorem RecoverDone_decoy_signature_fails:
  "cleaned_user frm = None \<Longrightarrow>
     loads_with_timestamp key t_loads t_now
        (mail_signature (Recover_form_valid key t_mail t_sig self frm)) url_salt
       = Inl BadSignature
     \<and> RecoverDone_get_context_data key t_loads t_now True ctx
        (mail_signature (Recover_form_valid key t_mail t_sig self frm)) = Inl Http404
     \<and> RecoverDone_get_context_data key t_loads t_now False ctx
        (mail_signature (Recover_form_valid key t_mail t_sig self frm)) = Inr ctx
     \<and> (\<forall>frm' u. cleaned_user frm' = Some u \<and> t_sig \<le> t_loads \<longrightarrow>
          RecoverDone_get_context_data key t_loads t_now fail ctx
             (mail_signature (Recover_form_valid key t_mail t_sig self frm'))
            = Inr (ctx(''timestamp'' \<mapsto>
                         Datetime (t_now - (t_loads - real_of_int \<lfloor>t_sig\<rfloor>)),
                       ''email'' \<mapsto>
                         Json (JStr (if search_fields self = [''username'']
                                     then username u else email u)))))"
proof -
  assume n: "cleaned_user frm = None"
  let ?tok = "mail_signature (Recover_form_valid key t_mail t_sig self frm)"
  have na: "\<not> authentic key url_salt ?tok"
    by (simp add: Recover_form_valid_None [OF n] authentic_dumps url_salt_def)
  have 1: "loads_with_timestamp key t_loads t_now ?tok url_salt = Inl BadSignature"
    using na by (rule loads_with_timestamp_not_authentic)
  have 2: "RecoverDone_get_context_data key t_loads t_now True ctx ?tok = Inl Http404"
    by (simp add: RecoverDone_get_context_data_def 1)
  have 3: "RecoverDone_get_context_data key t_loads t_now False ctx ?tok = Inr ctx"
    by (simp add: RecoverDone_get_context_data_def 1)
  have 4: "RecoverDone_get_context_data key t_loads t_now fail ctx
             (mail_signature (Recover_form_valid key t_mail t_sig self frm'))
            = Inr (ctx(''timestamp'' \<mapsto>
                         Datetime (t_now - (t_loads - real_of_int \<lfloor>t_sig\<rfloor>)),
                       ''email'' \<mapsto>
                         Json (JStr (if search_fields self = [''username'']
                                     then username u else email u))))"
    if "cleaned_user frm' = Some u" "t_sig \<le> t_loads" for frm' u
  proof -
    have "real_of_int \<lfloor>t_sig\<rfloor> \<le> t_sig"
      by linarith
    with that(2) have "t_loads - real_of_int \<lfloor>t_sig\<rfloor> > - 1"
      by linarith
    then show ?thesis
      by (simp add: Recover_form_valid_Some [OF that(1)] RecoverDone_get_context_data_def
          loads_with_timestamp_dumps)
  qed
  from 1 2 3 4 show ?thesis by blast
qed

theorem RecoverDone_decoy_signature_fails_witness:
  "cleaned_user \<lparr>cleaned_user = None, cleaned_username_or_email = ''bob@example.org''\<rparr> = None
   \<and> RecoverDone_get_context_data ''k'' 2060 2060 True Map.empty
        (mail_signature (Recover_form_valid ''k'' 2000 2001 \<lparr>search_fields = [''username'', ''email''], default_from_email = ''noreply@example.org'', the_request = \<lparr>site = ''example.org'', is_secure = True\<rparr>\<rparr> \<lparr>cleaned_user = None, cleaned_username_or_email = ''bob@example.org''\<rparr>)) = Inl Http404
   \<and> RecoverDone_get_context_data ''k'' 2060 2060 False Map.empty
        (mail_signature (Recover_form_valid ''k'' 2000 2001 \<lparr>search_fields = [''username'', ''email''], default_from_email = ''noreply@example.org'', the_request = \<lparr>site = ''example.org'', is_secure = True\<rparr>\<rparr> \<lparr>cleaned_user = None, cleaned_username_or_email = ''bob@example.org''\<rparr>)) = Inr Map.empty
   \<and> cleaned_user \<lparr>cleaned_user = Some \<lparr>pk = 7, username = ''alice'', email = ''alice@example.org''\<rparr>, cleaned_username_or_email = ''alice''\<rparr> = Some \<lparr>pk = 7, username = ''alice'', email = ''alice@example.org''\<rparr> \<and> (2001::real) \<le> 2060
   \<and> RecoverDone_get_context_data ''k'' 2060 2060 True Map.empty
        (mail_signature (Recover_form_valid ''k'' 2000 2001 \<lparr>search_fields = [''username'', ''email''], default_from_email = ''noreply@example.org'', the_request = \<lparr>site = ''example.org'', is_secure = True\<rparr>\<rparr> \<lparr>cleaned_user = Some \<lparr>pk = 7, username = ''alice'', email = ''alice@example.org''\<rparr>, cleaned_username_or_email = ''alice''\<rparr>))
       = Inr [''timestamp'' \<mapsto> Datetime 2001, ''email'' \<mapsto> Json (JStr ''alice@example.org'')]"
proof -
  have h: "cleaned_user \<lparr>cleaned_user = None, cleaned_username_or_email = ''bob@example.org''\<rparr> = None"
    by simp
  from RecoverDone_decoy_signature_fails
         [OF h, of "''k''" 2060 2060 2000 2001 "\<lparr>search_fields = [''username'', ''email''], default_from_email = ''noreply@example.org'', the_request = \<lparr>site = ''example.org'', is_secure = True\<rparr>\<rparr>" Map.empty True] h
  show ?thesis by simp
qed

end
